theory Spec2Isabelle
  imports Main "HOL-Library.Word"
begin

unbundle bit_operations_syntax

section \<open>Bytes, strings and the library functions the proxy calls\<close>

text \<open>
  Go strings and byte slices are sequences of bytes. Paths and keys are modelled as
  \<open>string\<close> (a list of 8-bit characters), response bodies as lists of 8-bit words.
\<close>

type_synonym byte = "8 word"
type_synonym u32 = "32 word"

definition bytes_of :: "string \<Rightarrow> byte list" where
  \<comment> \<open>the conversion \<open>[]byte(s)\<close>\<close>
  "bytes_of s = map of_char s"

subsection \<open>\<open>crypto/md5\<close> and \<open>encoding/hex\<close>\<close>

text \<open>
  \<open>md5.Sum\<close> is the MD5 digest of RFC 1321: the message is padded with \<open>0x80\<close>, zeros
  and its length in bits (64 bits, little endian) to a multiple of 64 bytes, and every
  64-byte block is mixed into four 32-bit words in 64 rounds.
\<close>

definition md5_shifts :: "nat list" where
  "md5_shifts = [7, 12, 17, 22, 7, 12, 17, 22, 7, 12, 17, 22, 7, 12, 17, 22,
                 5, 9, 14, 20, 5, 9, 14, 20, 5, 9, 14, 20, 5, 9, 14, 20,
                 4, 11, 16, 23, 4, 11, 16, 23, 4, 11, 16, 23, 4, 11, 16, 23,
                 6, 10, 15, 21, 6, 10, 15, 21, 6, 10, 15, 21, 6, 10, 15, 21]"

definition md5_table :: "u32 list" where
  "md5_table =
    [0xd76aa478, 0xe8c7b756, 0x242070db, 0xc1bdceee, 0xf57c0faf, 0x4787c62a, 0xa8304613, 0xfd469501,
     0x698098d8, 0x8b44f7af, 0xffff5bb1, 0x895cd7be, 0x6b901122, 0xfd987193, 0xa679438e, 0x49b40821,
     0xf61e2562, 0xc040b340, 0x265e5a51, 0xe9b6c7aa, 0xd62f105d, 0x02441453, 0xd8a1e681, 0xe7d3fbc8,
     0x21e1cde6, 0xc33707d6, 0xf4d50d87, 0x455a14ed, 0xa9e3e905, 0xfcefa3f8, 0x676f02d9, 0x8d2a4c8a,
     0xfffa3942, 0x8771f681, 0x6d9d6122, 0xfde5380c, 0xa4beea44, 0x4bdecfa9, 0xf6bb4b60, 0xbebfbc70,
     0x289b7ec6, 0xeaa127fa, 0xd4ef3085, 0x04881d05, 0xd9d4d039, 0xe6db99e5, 0x1fa27cf8, 0xc4ac5665,
     0xf4292244, 0x432aff97, 0xab9423a7, 0xfc93a039, 0x655b59c3, 0x8f0ccc92, 0xffeff47d, 0x85845dd1,
     0x6fa87e4f, 0xfe2ce6e0, 0xa3014314, 0x4e0811a1, 0xf7537e82, 0xbd3af235, 0x2ad7d2bb, 0xeb86d391]"

definition rotl32 :: "u32 \<Rightarrow> nat \<Rightarrow> u32" where
  "rotl32 x n = push_bit n x OR drop_bit (32 - n) x"

definition le_word :: "byte list \<Rightarrow> u32" where
  \<comment> \<open>the little-endian value of up to four bytes\<close>
  "le_word bs = foldr (\<lambda>b acc. push_bit 8 acc OR ucast b) bs 0"

fun le_words :: "nat \<Rightarrow> byte list \<Rightarrow> u32 list" where
  "le_words 0 bs = []"
| "le_words (Suc n) bs = le_word (take 4 bs) # le_words n (drop 4 bs)"

definition le_bytes :: "nat \<Rightarrow> 'a::len word \<Rightarrow> byte list" where
  \<comment> \<open>the \<open>n\<close> low bytes of a word, least significant first\<close>
  "le_bytes n w = map (\<lambda>i. ucast (drop_bit (8 * i) w)) [0..<n]"

definition md5_pad :: "byte list \<Rightarrow> byte list" where
  "md5_pad msg = msg @ [0x80] @ replicate ((119 - length msg mod 64) mod 64) 0
                   @ le_bytes 8 (8 * of_nat (length msg) :: 64 word)"

type_synonym md5_state = "u32 \<times> u32 \<times> u32 \<times> u32"

definition md5_round :: "u32 list \<Rightarrow> md5_state \<Rightarrow> nat \<Rightarrow> md5_state" where
  "md5_round m st i =
     (case st of (a, b, c, d) \<Rightarrow>
        let (f, g) =
              (if i < 16 then ((b AND c) OR (NOT b AND d), i)
               else if i < 32 then ((d AND b) OR (NOT d AND c), (5 * i + 1) mod 16)
               else if i < 48 then (b XOR c XOR d, (3 * i + 5) mod 16)
               else (c XOR (b OR NOT d), (7 * i) mod 16));
            f' = f + a + md5_table ! i + m ! g
        in (d, b + rotl32 f' (md5_shifts ! i), b, c))"

definition md5_block :: "md5_state \<Rightarrow> byte list \<Rightarrow> md5_state" where
  "md5_block st blk =
     (case st of (a0, b0, c0, d0) \<Rightarrow>
        case foldl (md5_round (le_words 16 blk)) st [0..<64] of
          (a, b, c, d) \<Rightarrow> (a0 + a, b0 + b, c0 + c, d0 + d))"

fun md5_blocks :: "nat \<Rightarrow> md5_state \<Rightarrow> byte list \<Rightarrow> md5_state" where
  "md5_blocks 0 st bs = st"
| "md5_blocks (Suc n) st bs = md5_blocks n (md5_block st (take 64 bs)) (drop 64 bs)"

definition md5_Sum :: "byte list \<Rightarrow> byte list" where
  "md5_Sum msg =
     (let p = md5_pad msg in
      case md5_blocks (length p div 64) (0x67452301, 0xefcdab89, 0x98badcfe, 0x10325476) p of
        (a, b, c, d) \<Rightarrow> concat (map (le_bytes 4) [a, b, c, d]))"

definition hexdigits :: string where
  "hexdigits = ''0123456789abcdef''"

definition EncodeToString :: "byte list \<Rightarrow> string" where
  \<comment> \<open>\<open>hex.EncodeToString\<close>: two lower-case hexadecimal digits for every byte\<close>
  "EncodeToString bs =
     concat (map (\<lambda>b. [hexdigits ! (unat b div 16), hexdigits ! (unat b mod 16)]) bs)"

subsection \<open>\<open>strings.TrimPrefix\<close>, \<open>strings.Split\<close> and \<open>strings.Join\<close>\<close>

definition TrimPrefix :: "string \<Rightarrow> string \<Rightarrow> string" where
  "TrimPrefix s p = (if take (length p) s = p then drop (length p) s else s)"

text \<open>
  \<open>strings.Split\<close> for a separator of one byte, the only use the proxy makes of it:
  the pieces between the separators, so one piece more than there are separators (the
  empty string splits into one empty piece).
\<close>

fun Split :: "string \<Rightarrow> char \<Rightarrow> string list" where
  "Split [] c = [[]]"
| "Split (x # xs) c =
     (if x = c then [] # Split xs c
      else (case Split xs c of [] \<Rightarrow> [[x]] | p # ps \<Rightarrow> (x # p) # ps))"

fun Join :: "string list \<Rightarrow> string \<Rightarrow> string" where
  "Join [] sep = []"
| "Join [p] sep = p"
| "Join (p # q # ps) sep = p @ sep @ Join (q # ps) sep"

section \<open>Storage key derivation\<close>

text \<open>
  The repository holds two versions of \<open>generateS3Key\<close>. The first (the version of
  \<open>main.go\<close> that buffers the body) drops the signature segment of an imgproxy path and
  hashes the rest; it returns the empty string for a path of fewer than three segments.
  The second (every version that uses the upload manager) hashes the whole path.
\<close>

definition generateS3Key_suffix :: "string \<Rightarrow> string" where
  "generateS3Key_suffix path =
     (let parts = Split (TrimPrefix path ''/'') (CHR ''/'') in
      if length parts < 3 then []
      else let toHash = Join (drop 1 parts) ''/'' in
           EncodeToString (md5_Sum (bytes_of toHash)))"

definition generateS3Key_whole :: "string \<Rightarrow> string" where
  "generateS3Key_whole path = EncodeToString (md5_Sum (bytes_of path))"

section \<open>Responses, readers and the object store\<close>

datatype error =
    ReadFailure string          \<comment> \<open>an error of \<open>io.ReadAll\<close> on the backend body\<close>
  | InvalidURLPathFormat        \<comment> \<open>\<open>fmt.Errorf("invalid URL path format")\<close>\<close>
  | PutFailure string           \<comment> \<open>an error of the object store that is not retried\<close>
  | AttemptsExceeded string     \<comment> \<open>the SDK's "exceeded maximum number of attempts", around the last error\<close>
  | HealthCheckFailed int       \<comment> \<open>\<open>fmt.Errorf("health check failed after %v", timeout)\<close>\<close>

text \<open>
  An \<open>io.Reader\<close> over a finite stream: the bytes it has still to deliver and how it
  ends, with \<open>io.EOF\<close> or with another error.
\<close>

datatype stream_end = EOF | Broken string

record reader =
  pending :: "byte list"
  ending :: stream_end

definition NewReader :: "byte list \<Rightarrow> reader" where
  \<comment> \<open>\<open>bytes.NewReader\<close>\<close>
  "NewReader b = \<lparr>pending = b, ending = EOF\<rparr>"

definition Read :: "nat \<Rightarrow> reader \<Rightarrow> (byte list \<times> stream_end option) \<times> reader" where
  \<comment> \<open>one \<open>Read\<close> into a slice of \<open>n\<close> bytes: the data, the error if any, the reader after it\<close>
  "Read n r =
     (if pending r = [] then (([], Some (ending r)), r)
      else ((take n (pending r), None), r\<lparr>pending := drop n (pending r)\<rparr>))"

definition ReadAll :: "reader \<Rightarrow> byte list \<times> string option" where
  \<comment> \<open>\<open>io.ReadAll\<close>: everything up to the end; \<open>io.EOF\<close> is not reported as an error\<close>
  "ReadAll r = (pending r, case ending r of EOF \<Rightarrow> None | Broken e \<Rightarrow> Some e)"

text \<open>
  The body of a response is the backend's reader, or the reader the streaming hook
  installs: \<open>io.NopCloser(io.TeeReader(resp.Body, &buf))\<close>, which reads the backend's
  reader and writes what it read to the hook's buffer.
\<close>

datatype body = Direct reader | Tee reader

fun reader_of :: "body \<Rightarrow> reader" where
  "reader_of (Direct r) = r"
| "reader_of (Tee r) = r"

record response =
  StatusCode :: int
  Header :: "(string \<times> string) list"
  Body :: body
  RequestPath :: string   \<comment> \<open>\<open>resp.Request.URL.Path\<close>\<close>

record Config =
  S3Endpoint :: string
  S3Bucket :: string
  S3Region :: string
  ImgproxyEndpoint :: string

text \<open>The configuration of the versions that write below a folder of the bucket.\<close>

record TigrisConfig =
  S3Bucket :: string
  S3Folder :: string
  TigrisProxyBind :: string
  HealthCheckTimeout :: int   \<comment> \<open>a \<open>time.Duration\<close>, in nanoseconds\<close>

record PutObjectInput =
  Bucket :: string
  Key :: string
  PutBody :: "byte list"

text \<open>
  The object store is outside the repository. It is a parameter of the model, as a test
  double is: a function that answers a request, given how many attempts of it came
  before, by storing the object, by an error that the SDK does not retry (access
  denied, no such bucket), or by one that it does retry (no connection, a 5xx status,
  throttling).
\<close>

datatype put_answer = Stored | Refused string | Unavailable string

type_synonym object_store = "PutObjectInput \<Rightarrow> nat \<Rightarrow> put_answer"

datatype log_entry = LogInfo string | LogError string

text \<open>What an upload goroutine did: the requests that reached the store, and its log.\<close>

record task_outcome =
  put_calls :: "PutObjectInput list"
  task_log :: "log_entry list"

section \<open>The upload\<close>

text \<open>
  No version of \<open>initS3Client\<close> sets a retryer, so every call goes out under the
  standard retryer of the AWS SDK for Go: at most three attempts
  (\<open>retry.DefaultMaxAttempts\<close>), a further attempt only after a retryable error, and
  the error \<open>exceeded maximum number of attempts\<close> when the last one fails too. The
  SDK's defaults are taken as they are (no \<open>AWS_MAX_ATTEMPTS\<close> in the environment),
  the client's retry quota as not used up, and the pauses between attempts are left
  out. \<open>attempt answer left k\<close> is the attempt that follows \<open>k\<close> earlier ones, with
  \<open>left\<close> retries still allowed; it gives the error of the call and the number of
  requests sent. \<open>PutObject\<close> gives the error of the call and the requests that
  reached the store. The upload manager sends a body that fits one part (5 MiB) with
  one \<open>PutObject\<close>; a longer body, which it sends in parts, is outside this model.
\<close>

definition MaxAttempts :: nat where
  "MaxAttempts = 3"

fun attempt :: "(nat \<Rightarrow> put_answer) \<Rightarrow> nat \<Rightarrow> nat \<Rightarrow> error option \<times> nat" where
  "attempt answer 0 k =
     (case answer k of
        Stored \<Rightarrow> (None, Suc k)
      | Refused e \<Rightarrow> (Some (PutFailure e), Suc k)
      | Unavailable e \<Rightarrow> (Some (AttemptsExceeded e), Suc k))"
| "attempt answer (Suc left) k =
     (case answer k of
        Stored \<Rightarrow> (None, Suc k)
      | Refused e \<Rightarrow> (Some (PutFailure e), Suc k)
      | Unavailable e \<Rightarrow> attempt answer left (Suc k))"

definition PutObject :: "object_store \<Rightarrow> PutObjectInput \<Rightarrow> error option \<times> PutObjectInput list" where
  \<comment> \<open>\<open>client.PutObject\<close> under the standard retryer\<close>
  "PutObject store inp =
     (fst (attempt (store inp) (MaxAttempts - 1) 0),
      replicate (snd (attempt (store inp) (MaxAttempts - 1) 0)) inp)"

definition Upload :: "object_store \<Rightarrow> PutObjectInput \<Rightarrow> error option \<times> PutObjectInput list" where
  \<comment> \<open>\<open>manager.Uploader.Upload\<close> of a body of one part\<close>
  "Upload store inp = PutObject store inp"

definition uploadToS3_suffix ::
  "object_store \<Rightarrow> Config \<Rightarrow> byte list \<Rightarrow> string \<Rightarrow> error option \<times> task_outcome" where
  \<comment> \<open>the buffering version: \<open>client.PutObject\<close> at the suffix key\<close>
  "uploadToS3_suffix client cfg r path =
     (let key = generateS3Key_suffix path in
      if key = [] then (Some InvalidURLPathFormat, \<lparr>put_calls = [], task_log = []\<rparr>)
      else let inp = \<lparr>Bucket = Config.S3Bucket cfg, Key = key, PutBody = r\<rparr>;
               sent = PutObject client inp
           in (fst sent, \<lparr>put_calls = snd sent, task_log = [LogInfo ''Uploading to S3'']\<rparr>))"

definition uploadToS3_plain ::
  "object_store \<Rightarrow> Config \<Rightarrow> byte list \<Rightarrow> string \<Rightarrow> error option \<times> task_outcome" where
  \<comment> \<open>the first streaming version: \<open>uploader.Upload\<close> at the key of the whole path\<close>
  "uploadToS3_plain uploader cfg r path =
     (let key = generateS3Key_whole path;
          inp = \<lparr>Bucket = Config.S3Bucket cfg, Key = key, PutBody = r\<rparr>;
          sent = Upload uploader inp;
          err = fst sent in
      if err \<noteq> None then (err, \<lparr>put_calls = snd sent, task_log = [LogError ''Upload failed'']\<rparr>)
      else (None, \<lparr>put_calls = snd sent, task_log = [LogInfo ''Uploaded to S3'']\<rparr>))"

definition uploadToS3_folder ::
  "object_store \<Rightarrow> TigrisConfig \<Rightarrow> byte list \<Rightarrow> string \<Rightarrow> error option \<times> task_outcome" where
  \<comment> \<open>the later streaming versions: the key is \<open>fmt.Sprintf("%s%s", cfg.S3Folder, key)\<close>\<close>
  "uploadToS3_folder uploader cfg r path =
     (let key = generateS3Key_whole path;
          inp = \<lparr>Bucket = TigrisConfig.S3Bucket cfg, Key = S3Folder cfg @ key, PutBody = r\<rparr>;
          sent = Upload uploader inp;
          err = fst sent in
      if err \<noteq> None then (err, \<lparr>put_calls = snd sent, task_log = [LogError ''Upload failed'']\<rparr>)
      else (None, \<lparr>put_calls = snd sent, task_log = [LogInfo ''Uploaded to S3'']\<rparr>))"

definition go_upload :: "error option \<times> task_outcome \<Rightarrow> task_outcome" where
  \<comment> \<open>the goroutine around \<open>uploadToS3\<close>: an error is logged and dropped\<close>
  "go_upload res =
     (case res of (err, oc) \<Rightarrow>
        if err \<noteq> None then oc\<lparr>task_log := task_log oc @ [LogError ''S3 upload failed'']\<rparr>
        else oc)"

section \<open>The response hook\<close>

text \<open>
  What \<open>proxy.ModifyResponse\<close> leaves behind: the error it returns to the proxy, the
  response as the proxy goes on to deliver it, the capture buffer if one was made (with
  its content when the hook returns), and the goroutines it started, each with what it
  was given to read and the request path.
\<close>

record 'src hook_result =
  ret :: "error option"
  out :: response
  captured :: "byte list option"
  spawned :: "('src \<times> string) list"
  hook_log :: "log_entry list"

definition ModifyResponse_buffered :: "response \<Rightarrow> (byte list) hook_result" where
  \<comment> \<open>the buffering version: the goroutine reads \<open>bytes.NewReader(body)\<close>\<close>
  "ModifyResponse_buffered resp =
     (if StatusCode resp = 200 then
        (case ReadAll (reader_of (Body resp)) of
           (body, Some e) \<Rightarrow>
             \<lparr>ret = Some (ReadFailure e),
              out = resp\<lparr>Body := Direct \<lparr>pending = [], ending = Broken e\<rparr>\<rparr>,
              captured = None, spawned = [],
              hook_log = [LogError ''Failed to read response body'']\<rparr>
         | (body, None) \<Rightarrow>
             \<lparr>ret = None,
              out = resp\<lparr>Body := Direct (NewReader body)\<rparr>,
              captured = Some body, spawned = [(body, RequestPath resp)],
              hook_log = []\<rparr>)
      else \<lparr>ret = None, out = resp, captured = None, spawned = [], hook_log = []\<rparr>)"

definition ModifyResponse_tee :: "response \<Rightarrow> unit hook_result" where
  \<comment> \<open>the streaming versions: the goroutine reads the buffer the tee writes to\<close>
  "ModifyResponse_tee resp =
     (if StatusCode resp = 200 then
        \<lparr>ret = None,
         out = resp\<lparr>Body := Tee (reader_of (Body resp))\<rparr>,
         captured = Some [], spawned = [((), RequestPath resp)],
         hook_log = []\<rparr>
      else \<lparr>ret = None, out = resp, captured = None, spawned = [], hook_log = []\<rparr>)"

section \<open>Delivery to the client\<close>

text \<open>
  What the proxy has written to the client's connection: status, headers and the bytes
  of the body, and how the copy of the body ended: \<open>None\<close> while the proxy is still
  copying, \<open>Some EOF\<close> when the response is complete, \<open>Some (Broken e)\<close> when the
  backend's body broke off. In the last case the proxy aborts the connection (it panics
  with \<open>http.ErrAbortHandler\<close>), and what it had written, the status line included,
  need not have reached the client: only a view that ends with \<open>Some EOF\<close> is a
  response the client has received.
\<close>

record client_view =
  status :: int
  headers :: "(string \<times> string) list"
  received :: "byte list"
  finished :: "stream_end option"

record served =
  to_client :: client_view
  uploads :: "task_outcome list"

definition deliver :: "response \<Rightarrow> client_view" where
  \<comment> \<open>the proxy copies the body to the client until the reader ends\<close>
  "deliver resp =
     \<lparr>status = StatusCode resp, headers = Header resp,
      received = pending (reader_of (Body resp)),
      finished = Some (ending (reader_of (Body resp)))\<rparr>"

definition bad_gateway :: client_view where
  \<comment> \<open>\<open>httputil.ReverseProxy\<close> answers 502 when \<open>ModifyResponse\<close> returns an error\<close>
  "bad_gateway = \<lparr>status = 502, headers = [], received = [], finished = Some EOF\<rparr>"

definition handle_buffered :: "object_store \<Rightarrow> Config \<Rightarrow> response \<Rightarrow> served" where
  \<comment> \<open>one request of the buffering version, the goroutine run to its end\<close>
  "handle_buffered client cfg resp =
     (let hr = ModifyResponse_buffered resp in
      case ret hr of
        Some e \<Rightarrow> \<lparr>to_client = bad_gateway, uploads = []\<rparr>
      | None \<Rightarrow>
          \<lparr>to_client = deliver (out hr),
           uploads = map (\<lambda>(r, path). go_upload (uploadToS3_suffix client cfg r path))
                         (spawned hr)\<rparr>)"

subsection \<open>The streaming versions: two tasks and one buffer\<close>

text \<open>
  In the streaming versions the proxy's copy loop and the upload goroutine run
  concurrently on one \<open>bytes.Buffer\<close>. The model is an interleaving of their reads:
  a \<open>ClientRead n\<close> is one read of the copy loop through the tee (what it gets from the
  backend goes to the client and is appended to the buffer), an \<open>UploadRead n\<close> is one
  read of the uploader from the buffer (\<open>bytes.Buffer.Read\<close> hands out and removes what
  is there, and reports \<open>io.EOF\<close> when there is nothing). The uploader reads its body
  to \<open>io.EOF\<close> and then sends what it has read. Each read is taken as atomic.
\<close>

datatype action = ClientRead nat | UploadRead nat

datatype event = ClientEnd stream_end | UploadPut "byte list"

record tee_state =
  src :: reader
  buf :: "byte list"
  delivered :: "byte list"
  client_end :: "stream_end option"
  uploaded :: "byte list"
  upload_done :: "task_outcome option"
  trace :: "event list"

definition Buffer_Read :: "nat \<Rightarrow> byte list \<Rightarrow> (byte list \<times> bool) \<times> byte list" where
  \<comment> \<open>\<open>bytes.Buffer.Read\<close>: the data, whether it reported \<open>io.EOF\<close>, the buffer after it\<close>
  "Buffer_Read n b =
     (if b = [] then (([], n \<noteq> 0), [])
      else ((take n b, False), drop n b))"

definition start_tee :: "reader \<Rightarrow> tee_state" where
  "start_tee r = \<lparr>src = r, buf = [], delivered = [], client_end = None,
                  uploaded = [], upload_done = None, trace = []\<rparr>"

fun tee_step :: "(byte list \<Rightarrow> task_outcome) \<Rightarrow> tee_state \<Rightarrow> action \<Rightarrow> tee_state" where
  "tee_step fin s (ClientRead n) =
     (if client_end s \<noteq> None then s
      else (case Read n (src s) of
              ((data, e), src') \<Rightarrow>
                s\<lparr>src := src', buf := buf s @ data, delivered := delivered s @ data,
                  client_end := e,
                  trace := trace s @ (case e of None \<Rightarrow> [] | Some x \<Rightarrow> [ClientEnd x])\<rparr>))"
| "tee_step fin s (UploadRead n) =
     (if upload_done s \<noteq> None then s
      else (case Buffer_Read n (buf s) of
              ((data, eof), buf') \<Rightarrow>
                if eof
                then s\<lparr>buf := buf', upload_done := Some (fin (uploaded s)),
                       trace := trace s @ [UploadPut (uploaded s)]\<rparr>
                else s\<lparr>buf := buf', uploaded := uploaded s @ data\<rparr>))"

definition run_tee :: "(byte list \<Rightarrow> task_outcome) \<Rightarrow> action list \<Rightarrow> tee_state \<Rightarrow> tee_state" where
  "run_tee fin sched s = foldl (tee_step fin) s sched"

definition handle_tee ::
  "(byte list \<Rightarrow> string \<Rightarrow> error option \<times> task_outcome) \<Rightarrow> action list \<Rightarrow> response \<Rightarrow> served" where
  \<comment> \<open>one request of a streaming version under a schedule; \<open>upload\<close> is its \<open>uploadToS3\<close>\<close>
  "handle_tee upload sched resp =
     (let hr = ModifyResponse_tee resp in
      case spawned hr of
        [] \<Rightarrow> \<lparr>to_client = deliver (out hr), uploads = []\<rparr>
      | (u, path) # rest \<Rightarrow>
          let s = run_tee (\<lambda>b. go_upload (upload b path)) sched
                    (start_tee (reader_of (Body (out hr))))
          in \<lparr>to_client = \<lparr>status = StatusCode (out hr), headers = Header (out hr),
                         received = delivered s, finished = client_end s\<rparr>,
              uploads = (case upload_done s of None \<Rightarrow> [] | Some oc \<Rightarrow> [oc])\<rparr>)"

section \<open>Start-up: configuration and the readiness poll\<close>

text \<open>
  The last version of the program waits for the backend before it serves. Time is a
  clock in nanoseconds that the model passes along. Two parameters stand for the world.
  The backend: a GET of a URL begun at some time is answered after some time with a
  status code, or fails. The lag: \<open>lag t\<close> is the time that the program's own steps take
  after the instant \<open>t\<close> before it reads the clock again (after a sleep, what the sleep
  takes beyond its 500 ms). The code reads the clock once for the deadline and again for
  every test of the loop, so the first test is already later than the deadline's start.
\<close>

datatype get_result = Got int | Failed

type_synonym http = "string \<Rightarrow> int \<Rightarrow> nat \<times> get_result"

definition client_Get :: "http \<Rightarrow> string \<Rightarrow> int \<Rightarrow> nat \<times> get_result" where
  \<comment> \<open>\<open>client.Get\<close> of \<open>http.Client{Timeout: 2 * time.Second}\<close>: an answer that has not
      come within two seconds is an error\<close>
  "client_Get backend u t =
     (if fst (backend u t) < 2000000000 then backend u t else (2000000000, Failed))"

record poll =
  at :: int
  url :: string
  took :: nat
  result :: get_result

record health_run =
  health_err :: "error option"
  polls :: "poll list"
  ended_at :: int

function waitForHealth_loop ::
  "http \<Rightarrow> (int \<Rightarrow> nat) \<Rightarrow> string \<Rightarrow> int \<Rightarrow> int \<Rightarrow> int \<Rightarrow> health_run" where
  "waitForHealth_loop backend lag target timeout endTime now =
     (if now < endTime then
        (let u = target @ ''/health'';
             d = fst (client_Get backend u now);
             r = snd (client_Get backend u now);
             p = \<lparr>at = now, url = u, took = d, result = r\<rparr>
         in if r = Got 200
            then \<lparr>health_err = None, polls = [p], ended_at = now + int d\<rparr>
            else (let rest = waitForHealth_loop backend lag target timeout endTime
                               (now + int d + 500000000 + int (lag (now + int d)))
                  in rest\<lparr>polls := p # polls rest\<rparr>))
      else \<lparr>health_err = Some (HealthCheckFailed timeout), polls = [], ended_at = now\<rparr>)"
  by pat_completeness auto
termination
  by (relation "measure (\<lambda>(backend, lag, target, timeout, endTime, now). nat (endTime - now))")
     auto

definition waitForHealth :: "http \<Rightarrow> (int \<Rightarrow> nat) \<Rightarrow> string \<Rightarrow> int \<Rightarrow> int \<Rightarrow> health_run" where
  \<comment> \<open>\<open>now\<close> is the clock at \<open>time.Now().Add(timeout)\<close>; \<open>ended_at\<close> is the clock when
      the function returns\<close>
  "waitForHealth backend lag target timeout now =
     waitForHealth_loop backend lag target timeout (now + timeout) (now + int (lag now))"

fun parse_digits :: "string \<Rightarrow> int \<Rightarrow> int option" where
  "parse_digits [] acc = Some acc"
| "parse_digits (c # cs) acc =
     (if 48 \<le> (of_char c :: nat) \<and> (of_char c :: nat) \<le> 57
      then parse_digits cs (acc * 10 + (int (of_char c) - 48))
      else None)"

definition ParseInt :: "string \<Rightarrow> int option" where
  \<comment> \<open>\<open>strconv.ParseInt(s, 10, 64)\<close>; \<open>None\<close> is a syntax or range error\<close>
  "ParseInt s =
     (let neg = (take 1 s = ''-'');
          digits = (if take 1 s = ''+'' \<or> take 1 s = ''-'' then drop 1 s else s)
      in if digits = [] then None
         else (case parse_digits digits 0 of
                 None \<Rightarrow> None
               | Some un \<Rightarrow>
                   if \<not> neg \<and> 2 ^ 63 \<le> un then None
                   else if neg \<and> 2 ^ 63 < un then None
                   else Some (if neg then - un else un)))"

definition load_config :: "(string \<Rightarrow> string) \<Rightarrow> TigrisConfig option" where
  \<comment> \<open>the beginning of \<open>main\<close>; \<open>None\<close> is \<open>os.Exit(1)\<close>. The duration is an \<open>int64\<close>.\<close>
  "load_config getenv =
     (let healthCheckTimeout =
            (if getenv ''HEALTH_CHECK_TIMEOUT_IN_SEC'' \<noteq> []
             then (case ParseInt (getenv ''HEALTH_CHECK_TIMEOUT_IN_SEC'') of
                     None \<Rightarrow> None
                   | Some t \<Rightarrow> Some (sint ((word_of_int t :: 64 word) * 1000000000)))
             else Some (30 * 1000000000))
      in case healthCheckTimeout of
           None \<Rightarrow> None
         | Some h \<Rightarrow>
             let cfg = \<lparr>S3Bucket = getenv ''S3_BUCKET'', S3Folder = getenv ''S3_FOLDER'',
                        TigrisProxyBind = getenv ''IMGPROXY_BIND'', HealthCheckTimeout = h\<rparr>
             in if TigrisConfig.S3Bucket cfg = [] then None
                else if TigrisProxyBind cfg = [] then Some (cfg\<lparr>TigrisProxyBind := '':8080''\<rparr>)
                else Some cfg)"

datatype process = Exit int | Serving TigrisConfig

definition main_tigris ::
  "(string \<Rightarrow> string) \<Rightarrow> bool \<Rightarrow> http \<Rightarrow> (int \<Rightarrow> nat) \<Rightarrow> int \<Rightarrow> process" where
  \<comment> \<open>\<open>main\<close> up to the listener; \<open>aws_ok\<close> says whether the AWS configuration loads,
      \<open>now\<close> is the clock when the readiness poll begins\<close>
  "main_tigris getenv aws_ok backend lag now =
     (case load_config getenv of
        None \<Rightarrow> Exit 1
      | Some cfg \<Rightarrow>
          if \<not> aws_ok then Exit 1
          else if health_err (waitForHealth backend lag ''http://127.0.0.1:8081''
                                (HealthCheckTimeout cfg) now) \<noteq> None
          then Exit 1
          else Serving cfg)"

section \<open>Invariants of the interleaving\<close>






section \<open>Example inputs\<close>

text \<open>
  Responses, configurations and object stores for the concrete runs below; a lag of a
  microsecond; a backend that becomes ready after a second and a half, one that answers
  200 after 1.9 seconds, and one that answers after five.
\<close>

definition notfound404 :: response where
  "notfound404 = \<lparr>StatusCode = 404, Header = [(''Content-Type'', ''text/plain'')],
             Body = Direct (NewReader [110, 111]), RequestPath = ''/sig/rs:fit/plain/x''\<rparr>"

definition image200 :: response where
  "image200 = \<lparr>StatusCode = 200, Header = [(''Content-Type'', ''image/jpeg'')],
               Body = Direct (NewReader [255, 216, 255]),
               RequestPath = ''/sig/rs:fit/plain/x''\<rparr>"

definition broken200 :: response where
  "broken200 = \<lparr>StatusCode = 200, Header = [(''Content-Type'', ''image/jpeg'')],
                Body = Direct \<lparr>pending = [255, 216], ending = Broken ''unexpected EOF''\<rparr>,
                RequestPath = ''/sig/rs:fit/plain/x''\<rparr>"

definition short200 :: response where
  "short200 = \<lparr>StatusCode = 200, Header = [],
               Body = Direct (NewReader [255, 216, 255]),
               RequestPath = ''/onlyonesegment''\<rparr>"

definition proxy_cfg :: Config where
  "proxy_cfg = \<lparr>S3Endpoint = ''http://localhost:4566'', S3Bucket = ''images'',
                S3Region = ''auto'', ImgproxyEndpoint = ''http://localhost:8080''\<rparr>"

definition folder_cfg :: TigrisConfig where
  "folder_cfg = \<lparr>S3Bucket = ''images'', S3Folder = ''cache/'', TigrisProxyBind = '':8080'',
                 HealthCheckTimeout = 30000000000\<rparr>"

definition bucket_cfg :: TigrisConfig where
  "bucket_cfg = \<lparr>S3Bucket = ''images'', S3Folder = [], TigrisProxyBind = '':8080'',
                 HealthCheckTimeout = 5000000000\<rparr>"

definition store_up :: object_store where
  "store_up inp k = Stored"


definition store_denied :: object_store where
  "store_denied inp k = Refused ''AccessDenied''"



definition steady_lag :: "int \<Rightarrow> nat" where
  "steady_lag t = 1000"

definition slow_backend :: http where
  "slow_backend u t = (if u = ''http://127.0.0.1:8081/health'' \<and> 1500000000 \<le> t
                       then (20000000, Got 200) else (100000000, Failed))"

definition late_backend :: http where
  "late_backend u t = (1900000000, Got 200)"

definition stalled_backend :: http where
  "stalled_backend u t = (5000000000, Got 200)"

definition bucket_env :: "string \<Rightarrow> string" where
  "bucket_env k = (if k = ''S3_BUCKET'' then ''images''
                   else if k = ''HEALTH_CHECK_TIMEOUT_IN_SEC'' then ''5'' else [])"

definition ready_run :: health_run where
  "ready_run =
     \<lparr>health_err = None,
      polls = [\<lparr>at = 1000, url = ''http://127.0.0.1:8081/health'', took = 100000000, result = Failed\<rparr>,
               \<lparr>at = 600002000, url = ''http://127.0.0.1:8081/health'', took = 100000000, result = Failed\<rparr>,
               \<lparr>at = 1200003000, url = ''http://127.0.0.1:8081/health'', took = 100000000, result = Failed\<rparr>,
               \<lparr>at = 1800004000, url = ''http://127.0.0.1:8081/health'', took = 20000000, result = Got 200\<rparr>],
      ended_at = 1820004000\<rparr>"

section \<open>Facts about splitting, joining and the digest\<close>

lemma Split_not_Nil: "Split s c \<noteq> []"
  by (induction s) (auto split: list.splits)

lemma Join_Cons_Cons: "Join ((x # p) # ps) sep = x # Join (p # ps) sep"
  by (cases ps) simp_all

lemma Join_Nil_Cons: "ps \<noteq> [] \<Longrightarrow> Join ([] # ps) sep = sep @ Join ps sep"
  by (cases ps) simp_all

lemma Join_Split: "Join (Split s c) [c] = s"
proof (induction s)
  case Nil
  show ?case by simp
next
  case (Cons x xs)
  show ?case
  proof (cases "x = c")
    case True
    then show ?thesis
      using Cons.IH by (simp add: Join_Nil_Cons Split_not_Nil)
  next
    case False
    obtain p ps where sp: "Split xs c = p # ps"
      using Split_not_Nil [of xs c] by (cases "Split xs c") auto
    with False Cons.IH show ?thesis
      by (simp add: Join_Cons_Cons)
  qed
qed

lemma Split_append_sep: "c \<notin> set s \<Longrightarrow> Split (s @ c # r) c = s # Split r c"
  by (induction s) auto

lemma length_le_bytes: "length (le_bytes n w) = n"
  by (simp add: le_bytes_def)

lemma length_md5_Sum: "length (md5_Sum msg) = 16"
  by (simp add: md5_Sum_def Let_def length_le_bytes split: prod.splits)

lemma length_EncodeToString: "length (EncodeToString bs) = 2 * length bs"
  by (induction bs) (simp_all add: EncodeToString_def)

lemma generateS3Key_whole_length: "length (generateS3Key_whole path) = 32"
  by (simp add: generateS3Key_whole_def length_EncodeToString length_md5_Sum)

lemma generateS3Key_suffix_signed:
  assumes "CHR ''/'' \<notin> set s"
  shows "generateS3Key_suffix (''/'' @ s @ ''/'' @ R) =
           (if length (Split R (CHR ''/'')) < 2 then []
            else EncodeToString (md5_Sum (bytes_of R)))"
proof -
  have trim: "TrimPrefix (''/'' @ s @ ''/'' @ R) ''/'' = s @ CHR ''/'' # R"
    by (simp add: TrimPrefix_def)
  have parts: "Split (s @ CHR ''/'' # R) (CHR ''/'') = s # Split R (CHR ''/'')"
    using assms by (rule Split_append_sep)
  have joined: "Join (Split R (CHR ''/'')) ''/'' = R"
    by (rule Join_Split)
  show ?thesis
    unfolding generateS3Key_suffix_def trim parts
    by (simp add: joined Let_def)
qed

lemma generateS3Key_suffix_empty_iff:
  "generateS3Key_suffix path = [] \<longleftrightarrow> length (Split (TrimPrefix path ''/'') (CHR ''/'')) < 3"
proof -
  have "EncodeToString (md5_Sum m) \<noteq> []" for m
    using length_EncodeToString [of "md5_Sum m"] by (auto simp: length_md5_Sum)
  then show ?thesis
    by (simp add: generateS3Key_suffix_def Let_def)
qed

section \<open>Facts about the calls of the object store\<close>

text \<open>
  A call sends between one and three requests, all of them the same; it sends one when
  the first answer is not retryable, and three when every answer is.
\<close>

lemma attempt_count: "k < snd (attempt answer left k) \<and> snd (attempt answer left k) \<le> Suc (k + left)"
proof (induction left arbitrary: k)
  case 0
  show ?case by (simp split: put_answer.splits)
next
  case (Suc left)
  have "Suc k < snd (attempt answer left (Suc k))
      \<and> snd (attempt answer left (Suc k)) \<le> Suc (Suc k + left)"
    by (rule Suc.IH)
  then show ?case by (auto split: put_answer.splits)
qed



lemma attempt_stored: "answer k = Stored \<Longrightarrow> attempt answer left k = (None, Suc k)"
  by (cases left) simp_all

lemma attempt_refused:
  "answer k = Refused e \<Longrightarrow> attempt answer left k = (Some (PutFailure e), Suc k)"
  by (cases left) simp_all

lemma PutObject_sent:
  "\<exists>n. 1 \<le> n \<and> n \<le> 3 \<and> snd (PutObject store inp) = replicate n inp"
proof -
  let ?n = "snd (attempt (store inp) (MaxAttempts - 1) 0)"
  have "1 \<le> ?n \<and> ?n \<le> 3"
    using attempt_count [of 0 "store inp" "MaxAttempts - 1"] by (simp add: MaxAttempts_def)
  moreover have "snd (PutObject store inp) = replicate ?n inp"
    by (simp add: PutObject_def)
  ultimately show ?thesis by blast
qed


lemma PutObject_stored: "store inp 0 = Stored \<Longrightarrow> PutObject store inp = (None, [inp])"
  by (simp add: PutObject_def attempt_stored)

lemma PutObject_refused:
  "store inp 0 = Refused e \<Longrightarrow> PutObject store inp = (Some (PutFailure e), [inp])"
  by (simp add: PutObject_def attempt_refused)


lemma refused_put_sent_once:
  "PutObject store_denied inp = (Some (PutFailure ''AccessDenied''), [inp])"
  by (rule PutObject_refused) (simp add: store_denied_def)

section \<open>Facts about the interleaving of delivery and upload\<close>


























text \<open>
  In the buffering version the body is read to its end before the goroutine starts, so
  the put, when there is one, carries the bytes the client receives.
\<close>

lemma buffered_fidelity:
  assumes "StatusCode resp = 200" and "ending (reader_of (Body resp)) = EOF"
    and "generateS3Key_suffix (RequestPath resp) \<noteq> []"
  shows "received (to_client (handle_buffered store cfg resp)) = pending (reader_of (Body resp))
       \<and> (\<exists>n. 1 \<le> n \<and> n \<le> 3
            \<and> map put_calls (uploads (handle_buffered store cfg resp))
                = [replicate n \<lparr>Bucket = Config.S3Bucket cfg,
                                  Key = generateS3Key_suffix (RequestPath resp),
                                  PutBody = pending (reader_of (Body resp))\<rparr>])"
  using assms
    PutObject_sent [of store "\<lparr>Bucket = Config.S3Bucket cfg,
                               Key = generateS3Key_suffix (RequestPath resp),
                               PutBody = pending (reader_of (Body resp))\<rparr>"]
  by (auto simp: handle_buffered_def ModifyResponse_buffered_def ReadAll_def deliver_def
        NewReader_def uploadToS3_suffix_def go_upload_def Let_def)

section \<open>Facts about the readiness poll\<close>

text \<open>
  The loop is unfolded one iteration at a time; induction follows the clock, which every
  iteration that does not return advances by the time of the poll, the sleep and the lag.
\<close>

declare waitForHealth_loop.simps [simp del]

lemma client_Get_took: "fst (client_Get backend u t) \<le> 2000000000"
  by (simp add: client_Get_def)

lemma waitForHealth_loop_unfold:
  "waitForHealth_loop backend lag target timeout endTime now =
     (if now < endTime then
        (if snd (client_Get backend (target @ ''/health'') now) = Got 200
         then \<lparr>health_err = None,
               polls = [\<lparr>at = now, url = target @ ''/health'',
                         took = fst (client_Get backend (target @ ''/health'') now),
                         result = snd (client_Get backend (target @ ''/health'') now)\<rparr>],
               ended_at = now + int (fst (client_Get backend (target @ ''/health'') now))\<rparr>
         else (waitForHealth_loop backend lag target timeout endTime
                 (now + int (fst (client_Get backend (target @ ''/health'') now)) + 500000000
                  + int (lag (now + int (fst (client_Get backend (target @ ''/health'') now))))))
              \<lparr>polls := \<lparr>at = now, url = target @ ''/health'',
                          took = fst (client_Get backend (target @ ''/health'') now),
                          result = snd (client_Get backend (target @ ''/health'') now)\<rparr>
                        # polls (waitForHealth_loop backend lag target timeout endTime
                                   (now + int (fst (client_Get backend (target @ ''/health'') now))
                                    + 500000000
                                    + int (lag (now + int (fst (client_Get backend (target @ ''/health'') now))))))\<rparr>)
      else \<lparr>health_err = Some (HealthCheckFailed timeout), polls = [], ended_at = now\<rparr>)"
  by (subst waitForHealth_loop.simps) (simp add: Let_def)

lemma waitForHealth_loop_induct [case_names step]:
  assumes "\<And>now. (now < endTime \<Longrightarrow> snd (client_Get backend (target @ ''/health'') now) \<noteq> Got 200
              \<Longrightarrow> P (now + int (fst (client_Get backend (target @ ''/health'') now)) + 500000000
                      + int (lag (now + int (fst (client_Get backend (target @ ''/health'') now))))))
             \<Longrightarrow> P now"
  shows "P now"
proof (induction "nat (endTime - now)" arbitrary: now rule: less_induct)
  case less
  show ?case
  proof (rule assms)
    assume "now < endTime"
    then show "P (now + int (fst (client_Get backend (target @ ''/health'') now)) + 500000000
                  + int (lag (now + int (fst (client_Get backend (target @ ''/health'') now)))))"
      by (intro less.hyps) simp
  qed
qed

lemma loop_success_iff:
  "health_err (waitForHealth_loop backend lag target timeout endTime now) = None
     \<longleftrightarrow> (\<exists>p \<in> set (polls (waitForHealth_loop backend lag target timeout endTime now)).
            result p = Got 200)"
proof (induction now rule: waitForHealth_loop_induct [where endTime = endTime and backend = backend and target = target and lag = lag])
  case (step now)
  then show ?case
    by (subst (1 2) waitForHealth_loop_unfold) auto
qed

lemma loop_stops_at_first_200:
  "p \<in> set (butlast (polls (waitForHealth_loop backend lag target timeout endTime now)))
     \<Longrightarrow> result p \<noteq> Got 200"
proof (induction now rule: waitForHealth_loop_induct [where endTime = endTime and backend = backend and target = target and lag = lag])
  case (step now)
  from step.prems show ?case
    by (subst (asm) waitForHealth_loop_unfold) (auto split: if_splits dest: step.IH)
qed

lemma loop_polls_in_time:
  "p \<in> set (polls (waitForHealth_loop backend lag target timeout endTime now))
     \<Longrightarrow> url p = target @ ''/health'' \<and> now \<le> at p \<and> at p < endTime
         \<and> took p = fst (client_Get backend (url p) (at p))
         \<and> result p = snd (client_Get backend (url p) (at p))"
proof (induction now rule: waitForHealth_loop_induct [where endTime = endTime and backend = backend and target = target and lag = lag])
  case (step now)
  let ?d = "fst (client_Get backend (target @ ''/health'') now)"
  let ?next = "now + int ?d + 500000000 + int (lag (now + int ?d))"
  let ?p = "\<lparr>at = now, url = target @ ''/health'', took = ?d,
             result = snd (client_Get backend (target @ ''/health'') now)\<rparr>"
  have live: "now < endTime"
    using step.prems by (subst (asm) waitForHealth_loop_unfold) (auto split: if_splits)
  show ?case
  proof (cases "snd (client_Get backend (target @ ''/health'') now) = Got 200")
    case True
    with live step.prems have "p = ?p"
      by (subst (asm) waitForHealth_loop_unfold) simp
    with live show ?thesis by simp
  next
    case False
    with live step.prems
    have "p = ?p \<or> p \<in> set (polls (waitForHealth_loop backend lag target timeout endTime ?next))"
      by (subst (asm) waitForHealth_loop_unfold) simp
    then show ?thesis
    proof
      assume "p = ?p"
      with live show ?thesis by simp
    next
      assume "p \<in> set (polls (waitForHealth_loop backend lag target timeout endTime ?next))"
      from step.IH [OF live False this] show ?thesis by simp
    qed
  qed
qed

lemma loop_first_poll:
  "polls (waitForHealth_loop backend lag target timeout endTime now) \<noteq> [] \<longleftrightarrow> now < endTime"
  "now < endTime \<Longrightarrow> at (polls (waitForHealth_loop backend lag target timeout endTime now) ! 0) = now"
  by (subst waitForHealth_loop_unfold, simp)+

lemma loop_no_poll:
  "\<not> now < endTime \<Longrightarrow>
   waitForHealth_loop backend lag target timeout endTime now
     = \<lparr>health_err = Some (HealthCheckFailed timeout), polls = [], ended_at = now\<rparr>"
  by (subst waitForHealth_loop_unfold) simp

lemma loop_interval:
  "Suc i < length (polls (waitForHealth_loop backend lag target timeout endTime now))
     \<Longrightarrow> at (polls (waitForHealth_loop backend lag target timeout endTime now) ! Suc i)
           = at (polls (waitForHealth_loop backend lag target timeout endTime now) ! i)
             + int (took (polls (waitForHealth_loop backend lag target timeout endTime now) ! i))
             + 500000000
             + int (lag (at (polls (waitForHealth_loop backend lag target timeout endTime now) ! i)
                         + int (took (polls (waitForHealth_loop backend lag target timeout endTime now) ! i))))"
proof (induction now arbitrary: i rule: waitForHealth_loop_induct [where endTime = endTime and backend = backend and target = target and lag = lag])
  case (step now)
  let ?d = "fst (client_Get backend (target @ ''/health'') now)"
  let ?next = "now + int ?d + 500000000 + int (lag (now + int ?d))"
  have run: "now < endTime" "snd (client_Get backend (target @ ''/health'') now) \<noteq> Got 200"
    using step.prems by (subst (asm) waitForHealth_loop_unfold, auto split: if_splits)+
  have eq: "polls (waitForHealth_loop backend lag target timeout endTime now)
              = \<lparr>at = now, url = target @ ''/health'', took = ?d,
                 result = snd (client_Get backend (target @ ''/health'') now)\<rparr>
                # polls (waitForHealth_loop backend lag target timeout endTime ?next)"
    using run by (subst waitForHealth_loop_unfold) simp
  show ?case
  proof (cases i)
    case 0
    have "polls (waitForHealth_loop backend lag target timeout endTime ?next) \<noteq> []"
      using step.prems 0 by (simp add: eq)
    then have "?next < endTime" by (simp add: loop_first_poll(1))
    then show ?thesis
      using 0 by (simp add: eq loop_first_poll(2))
  next
    case (Suc j)
    then show ?thesis
      using step.prems step.IH [OF run, of j] by (simp add: eq)
  qed
qed

text \<open>How a run ends: on success with the last poll, on failure with the test that
  found the deadline passed.\<close>

lemma loop_end:
  "ended_at (waitForHealth_loop backend lag target timeout endTime now) =
     (let ps = polls (waitForHealth_loop backend lag target timeout endTime now) in
      if ps = [] then now
      else if health_err (waitForHealth_loop backend lag target timeout endTime now) = None
      then at (last ps) + int (took (last ps))
      else at (last ps) + int (took (last ps)) + 500000000
           + int (lag (at (last ps) + int (took (last ps)))))"
proof (induction now rule: waitForHealth_loop_induct [where endTime = endTime and backend = backend and target = target and lag = lag])
  case (step now)
  let ?d = "fst (client_Get backend (target @ ''/health'') now)"
  let ?next = "now + int ?d + 500000000 + int (lag (now + int ?d))"
  show ?case
  proof (cases "now < endTime")
    case False
    then show ?thesis by (simp add: loop_no_poll)
  next
    case live: True
    show ?thesis
    proof (cases "snd (client_Get backend (target @ ''/health'') now) = Got 200")
      case True
      with live have "waitForHealth_loop backend lag target timeout endTime now
              = \<lparr>health_err = None,
                 polls = [\<lparr>at = now, url = target @ ''/health'', took = ?d,
                           result = snd (client_Get backend (target @ ''/health'') now)\<rparr>],
                 ended_at = now + int ?d\<rparr>"
        by (subst waitForHealth_loop_unfold) simp
      then show ?thesis by (simp add: Let_def)
    next
      case False
      have eq: "waitForHealth_loop backend lag target timeout endTime now
              = (waitForHealth_loop backend lag target timeout endTime ?next)
                \<lparr>polls := \<lparr>at = now, url = target @ ''/health'', took = ?d,
                            result = snd (client_Get backend (target @ ''/health'') now)\<rparr>
                          # polls (waitForHealth_loop backend lag target timeout endTime ?next)\<rparr>"
        using live False by (subst waitForHealth_loop_unfold) simp
      show ?thesis
      proof (cases "?next < endTime")
        case True
        then have ne: "polls (waitForHealth_loop backend lag target timeout endTime ?next) \<noteq> []"
          by (simp add: loop_first_poll(1))
        from step.IH [OF live False] ne show ?thesis
          by (simp add: eq Let_def)
      next
        case False
        then show ?thesis
          by (simp add: eq loop_no_poll Let_def)
      qed
    qed
  qed
qed

lemma loop_failure:
  "health_err (waitForHealth_loop backend lag target timeout endTime now) \<noteq> None
     \<Longrightarrow> health_err (waitForHealth_loop backend lag target timeout endTime now) = Some (HealthCheckFailed timeout)
         \<and> endTime \<le> ended_at (waitForHealth_loop backend lag target timeout endTime now)"
proof (induction now rule: waitForHealth_loop_induct [where endTime = endTime and backend = backend and target = target and lag = lag])
  case (step now)
  from step.prems show ?case
    by (subst (asm) waitForHealth_loop_unfold, subst (1 2) waitForHealth_loop_unfold)
       (auto split: if_splits dest: step.IH)
qed

lemma ready_run_eq:
  "ready_run = waitForHealth slow_backend steady_lag ''http://127.0.0.1:8081'' 5000000000 0"
  by (simp add: ready_run_def waitForHealth_def waitForHealth_loop.simps slow_backend_def
        steady_lag_def client_Get_def Let_def)

lemma parse_5: "ParseInt ''5'' = Some 5"
  by (simp add: ParseInt_def Let_def)

lemma bucket_cfg_eq: "load_config bucket_env = Some bucket_cfg"
  by (simp add: load_config_def bucket_env_def bucket_cfg_def parse_5 Let_def)

lemma late_run:
  "waitForHealth late_backend steady_lag ''http://127.0.0.1:8081'' 1000000000 0
     = \<lparr>health_err = None,
        polls = [\<lparr>at = 1000, url = ''http://127.0.0.1:8081/health'', took = 1900000000,
                  result = Got 200\<rparr>],
        ended_at = 1900001000\<rparr>"
  by (simp add: waitForHealth_def waitForHealth_loop.simps late_backend_def steady_lag_def
        client_Get_def Let_def)

lemma stalled_run:
  "waitForHealth stalled_backend steady_lag ''http://127.0.0.1:8081'' 3000000000 0
     = \<lparr>health_err = Some (HealthCheckFailed 3000000000),
        polls = [\<lparr>at = 1000, url = ''http://127.0.0.1:8081/health'', took = 2000000000,
                  result = Failed\<rparr>,
                 \<lparr>at = 2500002000, url = ''http://127.0.0.1:8081/health'', took = 2000000000,
                  result = Failed\<rparr>],
        ended_at = 5000003000\<rparr>"
  by (simp add: waitForHealth_def waitForHealth_loop.simps stalled_backend_def steady_lag_def
        client_Get_def Let_def)

lemma no_time_to_poll:
  "waitForHealth slow_backend steady_lag ''http://127.0.0.1:8081'' 1 0
     = \<lparr>health_err = Some (HealthCheckFailed 1), polls = [], ended_at = 1000\<rparr>"
  by (simp add: waitForHealth_def waitForHealth_loop.simps steady_lag_def)

section \<open>The digests of the example path\<close>

lemma digest_of_options_and_source:
  "EncodeToString (md5_Sum (bytes_of ''resize:fill:300:300/plain/https://example.com/a.jpg''))
     = ''11f1674366cf8d7e5904e59c4aaac725''"
  by code_simp

lemma digest_of_whole_path:
  "EncodeToString (md5_Sum (bytes_of ''/sig123/resize:fill:300:300/plain/https://example.com/a.jpg''))
     = ''8c2e86406e84e350483c5eb87f4e5d94''"
  by code_simp

lemma example_path_key:
  "generateS3Key_suffix ''/sig123/resize:fill:300:300/plain/https://example.com/a.jpg''
     = EncodeToString (md5_Sum (bytes_of ''resize:fill:300:300/plain/https://example.com/a.jpg''))"
proof -
  have "generateS3Key_suffix
          (''/'' @ ''sig123'' @ ''/'' @ ''resize:fill:300:300/plain/https://example.com/a.jpg'')
        = EncodeToString (md5_Sum (bytes_of ''resize:fill:300:300/plain/https://example.com/a.jpg''))"
    by (subst generateS3Key_suffix_signed) simp_all
  then show ?thesis by simp
qed

text \<open>
  The versions with a folder setting hash the whole path and put at the folder followed
  by that key.
\<close>

lemma example_key_whole_policy:
  "generateS3Key_whole ''/sig123/resize:fill:300:300/plain/https://example.com/a.jpg''
     = ''8c2e86406e84e350483c5eb87f4e5d94''
   \<and> (\<exists>n. 1 \<le> n \<and> n \<le> 3
        \<and> put_calls (snd (uploadToS3_folder uploader tcfg r
                            ''/sig123/resize:fill:300:300/plain/https://example.com/a.jpg''))
          = replicate n \<lparr>Bucket = TigrisConfig.S3Bucket tcfg,
                          Key = S3Folder tcfg @ ''8c2e86406e84e350483c5eb87f4e5d94'',
                          PutBody = r\<rparr>)"
  using PutObject_sent [of uploader "\<lparr>Bucket = TigrisConfig.S3Bucket tcfg,
                          Key = S3Folder tcfg @ ''8c2e86406e84e350483c5eb87f4e5d94'',
                          PutBody = r\<rparr>"]
  by (auto simp: uploadToS3_folder_def generateS3Key_whole_def digest_of_whole_path Upload_def
        Let_def)

section \<open>The claims\<close>

text \<open>
  C1. The claim is that the upload reads the capture buffer only after the client's side
  has consumed the whole body. The streaming versions start the goroutine before the
  proxy has copied anything and have no synchronisation between the two. This run of a
  status-200 response of three bytes lets the uploader read first: it finds the buffer
  empty, takes that as the end of the body and puts an empty body, before the client's
  side has reached the end of the stream.
\<close>

theorem tee_upload_before_client_end:
  "trace (run_tee (\<lambda>b. go_upload (uploadToS3_folder store_up folder_cfg b (RequestPath image200)))
            [UploadRead 5242880, ClientRead 32768, ClientRead 32768]
            (start_tee (reader_of (Body (out (ModifyResponse_tee image200))))))
     = [UploadPut [], ClientEnd EOF]"
  by (simp add: run_tee_def start_tee_def ModifyResponse_tee_def image200_def NewReader_def
        Read_def Buffer_Read_def)

text \<open>
  C2. The claim is that the bytes the client receives and the bytes of the put are the
  same. In this run of a streaming version the uploader reads after the first two bytes
  have gone through the tee and before the third: the client receives all three bytes,
  the put succeeds with the first two.
\<close>

theorem tee_upload_truncated:
  "handle_tee (uploadToS3_folder store_up folder_cfg)
     [ClientRead 2, UploadRead 5242880, UploadRead 5242880, ClientRead 32768, ClientRead 32768]
     image200
   = \<lparr>to_client = \<lparr>status = 200, headers = [(''Content-Type'', ''image/jpeg'')],
                    received = [255, 216, 255], finished = Some EOF\<rparr>,
      uploads = [\<lparr>put_calls = [\<lparr>Bucket = ''images'',
                                  Key = ''cache/'' @ generateS3Key_whole ''/sig/rs:fit/plain/x'',
                                  PutBody = [255, 216]\<rparr>],
                  task_log = [LogInfo ''Uploaded to S3'']\<rparr>]\<rparr>"
  by (simp add: handle_tee_def run_tee_def start_tee_def ModifyResponse_tee_def image200_def
        NewReader_def Read_def Buffer_Read_def uploadToS3_folder_def go_upload_def
        folder_cfg_def Upload_def PutObject_stored store_up_def Let_def)

text \<open>
  C3. For a response whose status is not 200 the hook, in every version, returns no
  error, leaves the response as it is (status, headers and body), makes no capture
  buffer and starts no goroutine; the request is served with the backend's response and
  no upload runs, so the object store sees no put.
\<close>

theorem non200_passes_untouched:
  assumes "StatusCode resp \<noteq> 200"
  shows "ModifyResponse_buffered resp
           = \<lparr>ret = None, out = resp, captured = None, spawned = [], hook_log = []\<rparr>
       \<and> ModifyResponse_tee resp
           = \<lparr>ret = None, out = resp, captured = None, spawned = [], hook_log = []\<rparr>
       \<and> handle_buffered store cfg resp = \<lparr>to_client = deliver resp, uploads = []\<rparr>
       \<and> handle_tee upload sched resp = \<lparr>to_client = deliver resp, uploads = []\<rparr>"
  using assms
  by (simp add: ModifyResponse_buffered_def ModifyResponse_tee_def handle_buffered_def
        handle_tee_def)

text \<open>
  C3 at a 404 response.
\<close>

theorem non200_passes_untouched_witness:
  "StatusCode notfound404 \<noteq> 200
   \<and> ModifyResponse_buffered notfound404
       = \<lparr>ret = None, out = notfound404, captured = None, spawned = [], hook_log = []\<rparr>
   \<and> ModifyResponse_tee notfound404
       = \<lparr>ret = None, out = notfound404, captured = None, spawned = [], hook_log = []\<rparr>
   \<and> handle_buffered store_up proxy_cfg notfound404
       = \<lparr>to_client = deliver notfound404, uploads = []\<rparr>
   \<and> handle_tee (uploadToS3_plain store_up proxy_cfg) [UploadRead 4, ClientRead 4] notfound404
       = \<lparr>to_client = deliver notfound404, uploads = []\<rparr>
   \<and> deliver notfound404 = \<lparr>status = 404, headers = [(''Content-Type'', ''text/plain'')],
                         received = [110, 111], finished = Some EOF\<rparr>"
proof -
  have h: "StatusCode notfound404 \<noteq> 200" by (simp add: notfound404_def)
  have d: "deliver notfound404 = \<lparr>status = 404, headers = [(''Content-Type'', ''text/plain'')],
                             received = [110, 111], finished = Some EOF\<rparr>"
    by (simp add: deliver_def notfound404_def NewReader_def)
  from non200_passes_untouched [OF h] h d show ?thesis by blast
qed

text \<open>
  C5. Under the suffix policy, a path with fewer than three segments after the leading
  slash has the empty key; \<open>uploadToS3\<close> then returns an error without calling the
  object store; and a status-200 response for such a path reaches the client whole,
  while its upload ends with no put and one logged error.
\<close>

theorem short_path_skips_upload:
  assumes "length (Split (TrimPrefix path ''/'') (CHR ''/'')) < 3"
  shows "generateS3Key_suffix path = []
       \<and> uploadToS3_suffix store cfg r path
           = (Some InvalidURLPathFormat, \<lparr>put_calls = [], task_log = []\<rparr>)
       \<and> (StatusCode resp = 200 \<and> RequestPath resp = path \<and> ending (reader_of (Body resp)) = EOF
            \<longrightarrow> handle_buffered store cfg resp
                 = \<lparr>to_client = \<lparr>status = 200, headers = Header resp,
                                  received = pending (reader_of (Body resp)),
                                  finished = Some EOF\<rparr>,
                    uploads = [\<lparr>put_calls = [],
                                task_log = [LogError ''S3 upload failed'']\<rparr>]\<rparr>)"
proof -
  have key: "generateS3Key_suffix path = []"
    using assms by (simp add: generateS3Key_suffix_empty_iff)
  have up: "uploadToS3_suffix store cfg r path
              = (Some InvalidURLPathFormat, \<lparr>put_calls = [], task_log = []\<rparr>)" for r
    by (simp add: uploadToS3_suffix_def key)
  show ?thesis
    by (simp add: key up handle_buffered_def ModifyResponse_buffered_def ReadAll_def
          deliver_def NewReader_def go_upload_def)
qed

text \<open>
  C5 at the path \<open>/onlyonesegment\<close>.
\<close>

theorem short_path_skips_upload_witness:
  "length (Split (TrimPrefix ''/onlyonesegment'' ''/'') (CHR ''/'')) < 3
   \<and> StatusCode short200 = 200 \<and> RequestPath short200 = ''/onlyonesegment''
   \<and> ending (reader_of (Body short200)) = EOF
   \<and> generateS3Key_suffix ''/onlyonesegment'' = []
   \<and> uploadToS3_suffix store_up proxy_cfg [255, 216, 255] ''/onlyonesegment''
        = (Some InvalidURLPathFormat, \<lparr>put_calls = [], task_log = []\<rparr>)
   \<and> handle_buffered store_up proxy_cfg short200
        = \<lparr>to_client = \<lparr>status = 200, headers = [], received = [255, 216, 255],
                         finished = Some EOF\<rparr>,
           uploads = [\<lparr>put_calls = [], task_log = [LogError ''S3 upload failed'']\<rparr>]\<rparr>"
proof -
  have h: "length (Split (TrimPrefix ''/onlyonesegment'' ''/'') (CHR ''/'')) < 3"
    by (simp add: TrimPrefix_def)
  have r: "StatusCode short200 = 200" "RequestPath short200 = ''/onlyonesegment''"
    "ending (reader_of (Body short200)) = EOF" "Header short200 = []"
    "pending (reader_of (Body short200)) = [255, 216, 255]"
    by (simp_all add: short200_def NewReader_def)
  from short_path_skips_upload [OF h, of store_up proxy_cfg "[255, 216, 255]" short200] h r
  show ?thesis by simp
qed

text \<open>
  C6. Under the suffix policy the key of the example path is the hex encoding of the
  digest of \<open>resize:fill:300:300/plain/https://example.com/a.jpg\<close>, the slashes of the
  source URL restored by the join, and every request of the upload is at the folder
  prefix followed by that key. The version with the suffix policy has no folder setting,
  so its prefix is the empty string: with a store that accepts the put there is one
  request, at \<open>11f1674366cf8d7e5904e59c4aaac725\<close>.
\<close>

theorem example_key_suffix_policy:
  "generateS3Key_suffix ''/sig123/resize:fill:300:300/plain/https://example.com/a.jpg''
     = EncodeToString (md5_Sum (bytes_of ''resize:fill:300:300/plain/https://example.com/a.jpg''))
   \<and> generateS3Key_suffix ''/sig123/resize:fill:300:300/plain/https://example.com/a.jpg''
     = ''11f1674366cf8d7e5904e59c4aaac725''
   \<and> map Key (put_calls (snd (uploadToS3_suffix store cfg r
                                 ''/sig123/resize:fill:300:300/plain/https://example.com/a.jpg'')))
     = replicate (length (put_calls (snd (uploadToS3_suffix store cfg r
                                 ''/sig123/resize:fill:300:300/plain/https://example.com/a.jpg''))))
         ([] @ generateS3Key_suffix ''/sig123/resize:fill:300:300/plain/https://example.com/a.jpg'')
   \<and> 1 \<le> length (put_calls (snd (uploadToS3_suffix store cfg r
                                 ''/sig123/resize:fill:300:300/plain/https://example.com/a.jpg'')))
   \<and> uploadToS3_suffix store_up proxy_cfg [255, 216, 255]
        ''/sig123/resize:fill:300:300/plain/https://example.com/a.jpg''
     = (None, \<lparr>put_calls = [\<lparr>Bucket = ''images'',
                               Key = [] @ ''11f1674366cf8d7e5904e59c4aaac725'',
                               PutBody = [255, 216, 255]\<rparr>],
               task_log = [LogInfo ''Uploading to S3'']\<rparr>)"
proof -
  let ?P = "''/sig123/resize:fill:300:300/plain/https://example.com/a.jpg''"
  let ?inp = "\<lparr>Bucket = Config.S3Bucket cfg, Key = generateS3Key_suffix ?P, PutBody = r\<rparr>"
  have k: "generateS3Key_suffix ?P = ''11f1674366cf8d7e5904e59c4aaac725''"
    by (simp only: example_path_key digest_of_options_and_source)
  have ne: "generateS3Key_suffix ?P \<noteq> []"
    by (simp add: k)
  have u: "put_calls (snd (uploadToS3_suffix store cfg r ?P)) = snd (PutObject store ?inp)"
    using ne by (simp add: uploadToS3_suffix_def Let_def)
  obtain n where n: "1 \<le> n" "snd (PutObject store ?inp) = replicate n ?inp"
    using PutObject_sent [of store ?inp] by blast
  have one: "uploadToS3_suffix store_up proxy_cfg [255, 216, 255] ?P
     = (None, \<lparr>put_calls = [\<lparr>Bucket = ''images'',
                               Key = [] @ ''11f1674366cf8d7e5904e59c4aaac725'',
                               PutBody = [255, 216, 255]\<rparr>],
               task_log = [LogInfo ''Uploading to S3'']\<rparr>)"
    by (simp add: uploadToS3_suffix_def k PutObject_stored store_up_def proxy_cfg_def Let_def)
  from n show ?thesis
    by (simp only: u one example_path_key [symmetric] k) simp
qed

text \<open>
  C7. Under the suffix policy the key does not depend on the first path segment: for
  segments \<open>s1\<close> and \<open>s2\<close> without a slash and a rest \<open>R\<close> of at least two segments,
  the paths \<open>/s1/R\<close> and \<open>/s2/R\<close> have the same key.
\<close>

theorem generateS3Key_suffix_ignores_signature:
  assumes "CHR ''/'' \<notin> set s1" and "CHR ''/'' \<notin> set s2"
    and "2 \<le> length (Split R (CHR ''/''))"
  shows "generateS3Key_suffix (''/'' @ s1 @ ''/'' @ R)
           = generateS3Key_suffix (''/'' @ s2 @ ''/'' @ R)"
proof -
  have "generateS3Key_suffix (''/'' @ s1 @ ''/'' @ R) = EncodeToString (md5_Sum (bytes_of R))"
    using assms(3) by (simp only: generateS3Key_suffix_signed [OF assms(1)]) simp
  moreover
  have "generateS3Key_suffix (''/'' @ s2 @ ''/'' @ R) = EncodeToString (md5_Sum (bytes_of R))"
    using assms(3) by (simp only: generateS3Key_suffix_signed [OF assms(2)]) simp
  ultimately show ?thesis by (rule trans [OF _ sym])
qed

text \<open>
  C7 at the signatures \<open>sigA\<close> and \<open>sigB\<close> and the rest \<open>rs:fit/plain\<close>.
\<close>

theorem generateS3Key_suffix_ignores_signature_witness:
  "CHR ''/'' \<notin> set ''sigA'' \<and> CHR ''/'' \<notin> set ''sigB''
   \<and> 2 \<le> length (Split ''rs:fit/plain'' (CHR ''/''))
   \<and> generateS3Key_suffix (''/'' @ ''sigA'' @ ''/'' @ ''rs:fit/plain'')
        = generateS3Key_suffix (''/'' @ ''sigB'' @ ''/'' @ ''rs:fit/plain'')"
proof -
  have a: "CHR ''/'' \<notin> set ''sigA''" by simp
  have b: "CHR ''/'' \<notin> set ''sigB''" by simp
  have c: "2 \<le> length (Split ''rs:fit/plain'' (CHR ''/''))" by simp
  from generateS3Key_suffix_ignores_signature [OF a b c] a b c show ?thesis
    by blast
qed




text \<open>
  C9, as stated, fails in two points. The deadline is tested only when a poll is about
  to begin: with a timeout of one second, a poll begun in time and answered with 200
  after 1.9 seconds makes \<open>waitForHealth\<close> succeed although the timeout has gone by
  without a successful poll. And the polls are not 500 ms apart: the sleep is 500 ms,
  so two polls of a backend that does not answer begin 2.5 seconds apart (the client's
  two seconds, the sleep, the lag).
\<close>

theorem waitForHealth_deadline_counterexample:
  "health_err (waitForHealth late_backend steady_lag ''http://127.0.0.1:8081'' 1000000000 0) = None
   \<and> \<not> ended_at (waitForHealth late_backend steady_lag ''http://127.0.0.1:8081'' 1000000000 0)
         \<le> 0 + 1000000000
   \<and> map at (polls (waitForHealth stalled_backend steady_lag ''http://127.0.0.1:8081'' 3000000000 0))
       = [1000, 2500002000]"
  by (simp add: late_run stalled_run)

text \<open>
  C9, amended. For the run \<open>r\<close> of \<open>waitForHealth\<close>: it succeeds exactly when one of
  its polls returned status 200, and no poll but the last did, so the first 200 ends
  it, whenever it arrives; every poll is a GET of \<open>target/health\<close> that begins before
  the deadline and takes at most two seconds; there is a first poll exactly when the
  deadline has not passed at the first test of the loop; each further poll begins
  500 ms (and the lag) after the previous one returned; a successful run ends with its
  last poll, a failed one with the test, 500 ms after its last poll, that finds the
  deadline reached, so polling goes on until success or the deadline; a failed run
  returns the health-check error; and \<open>main\<close>, once the configuration is loaded, exits
  with status 1 when the run fails and goes on to serve when it succeeds.
\<close>

theorem waitForHealth_polls_until_ready_or_deadline:
  assumes "r = waitForHealth backend lag target timeout now"
  shows "(health_err r = None \<longleftrightarrow> (\<exists>p \<in> set (polls r). result p = Got 200))
       \<and> (\<forall>p \<in> set (butlast (polls r)). result p \<noteq> Got 200)
       \<and> (\<forall>p \<in> set (polls r).
             url p = target @ ''/health'' \<and> now + int (lag now) \<le> at p \<and> at p < now + timeout
             \<and> took p = fst (client_Get backend (url p) (at p))
             \<and> result p = snd (client_Get backend (url p) (at p))
             \<and> took p \<le> 2000000000)
       \<and> (polls r \<noteq> [] \<longleftrightarrow> int (lag now) < timeout)
       \<and> (polls r \<noteq> [] \<longrightarrow> at (polls r ! 0) = now + int (lag now))
       \<and> (\<forall>i. Suc i < length (polls r) \<longrightarrow>
             at (polls r ! Suc i)
               = at (polls r ! i) + int (took (polls r ! i)) + 500000000
                 + int (lag (at (polls r ! i) + int (took (polls r ! i)))))
       \<and> ended_at r =
           (if polls r = [] then now + int (lag now)
            else if health_err r = None
            then at (last (polls r)) + int (took (last (polls r)))
            else at (last (polls r)) + int (took (last (polls r))) + 500000000
                 + int (lag (at (last (polls r)) + int (took (last (polls r))))))
       \<and> (health_err r \<noteq> None \<longrightarrow>
             health_err r = Some (HealthCheckFailed timeout) \<and> now + timeout \<le> ended_at r)
       \<and> (load_config getenv = Some cfg \<and> aws_ok \<and> target = ''http://127.0.0.1:8081''
            \<and> timeout = HealthCheckTimeout cfg \<longrightarrow>
             main_tigris getenv aws_ok backend lag now
               = (if health_err r = None then Serving cfg else Exit 1))"
proof -
  have r: "r = waitForHealth_loop backend lag target timeout (now + timeout) (now + int (lag now))"
    using assms by (simp add: waitForHealth_def)
  have a: "health_err r = None \<longleftrightarrow> (\<exists>p \<in> set (polls r). result p = Got 200)"
    unfolding r by (rule loop_success_iff)
  have b: "\<forall>p \<in> set (butlast (polls r)). result p \<noteq> Got 200"
    unfolding r by (blast dest: loop_stops_at_first_200)
  have c: "\<forall>p \<in> set (polls r).
             url p = target @ ''/health'' \<and> now + int (lag now) \<le> at p \<and> at p < now + timeout
             \<and> took p = fst (client_Get backend (url p) (at p))
             \<and> result p = snd (client_Get backend (url p) (at p))
             \<and> took p \<le> 2000000000"
  proof
    fix p assume "p \<in> set (polls r)"
    from loop_polls_in_time [OF this [unfolded r]]
    show "url p = target @ ''/health'' \<and> now + int (lag now) \<le> at p \<and> at p < now + timeout
             \<and> took p = fst (client_Get backend (url p) (at p))
             \<and> result p = snd (client_Get backend (url p) (at p))
             \<and> took p \<le> 2000000000"
      by (simp add: client_Get_took)
  qed
  have d: "polls r \<noteq> [] \<longleftrightarrow> int (lag now) < timeout"
    unfolding r by (simp add: loop_first_poll(1))
  have d': "polls r \<noteq> [] \<longrightarrow> at (polls r ! 0) = now + int (lag now)"
    unfolding r by (simp add: loop_first_poll)
  have e: "\<forall>i. Suc i < length (polls r) \<longrightarrow>
             at (polls r ! Suc i)
               = at (polls r ! i) + int (took (polls r ! i)) + 500000000
                 + int (lag (at (polls r ! i) + int (took (polls r ! i))))"
    unfolding r by (blast intro: loop_interval)
  have f: "ended_at r =
           (if polls r = [] then now + int (lag now)
            else if health_err r = None
            then at (last (polls r)) + int (took (last (polls r)))
            else at (last (polls r)) + int (took (last (polls r))) + 500000000
                 + int (lag (at (last (polls r)) + int (took (last (polls r))))))"
    unfolding r by (subst loop_end) (simp add: Let_def)
  have g: "health_err r \<noteq> None \<longrightarrow>
             health_err r = Some (HealthCheckFailed timeout) \<and> now + timeout \<le> ended_at r"
    unfolding r by (rule impI) (rule loop_failure)
  have h: "load_config getenv = Some cfg \<and> aws_ok \<and> target = ''http://127.0.0.1:8081''
            \<and> timeout = HealthCheckTimeout cfg \<longrightarrow>
             main_tigris getenv aws_ok backend lag now
               = (if health_err r = None then Serving cfg else Exit 1)"
    using assms by (auto simp: main_tigris_def)
  from a b c d d' e f g h show ?thesis by blast
qed

text \<open>
  C9, amended, at a backend that refuses connections for a second and a half and then
  answers 200, with a timeout of five seconds: four polls, and the server starts.
\<close>

theorem waitForHealth_polls_until_ready_or_deadline_witness:
  "ready_run = waitForHealth slow_backend steady_lag ''http://127.0.0.1:8081'' 5000000000 0
   \<and> load_config bucket_env = Some bucket_cfg
   \<and> HealthCheckTimeout bucket_cfg = 5000000000
   \<and> int (steady_lag 0) < 5000000000
   \<and> health_err ready_run = None
   \<and> (\<exists>p \<in> set (polls ready_run). result p = Got 200)
   \<and> list_all (\<lambda>p. result p \<noteq> Got 200) (butlast (polls ready_run))
   \<and> list_all (\<lambda>p. url p = ''http://127.0.0.1:8081/health'' \<and> 0 + int (steady_lag 0) \<le> at p
                    \<and> at p < 0 + 5000000000 \<and> took p \<le> 2000000000)
        (polls ready_run)
   \<and> polls ready_run \<noteq> []
   \<and> map at (polls ready_run) = [1000, 600002000, 1200003000, 1800004000]
   \<and> map took (polls ready_run) = [100000000, 100000000, 100000000, 20000000]
   \<and> ended_at ready_run = at (last (polls ready_run)) + int (took (last (polls ready_run)))
   \<and> main_tigris bucket_env True slow_backend steady_lag 0 = Serving bucket_cfg"
proof -
  have ok: "health_err ready_run = None" by (simp add: ready_run_def)
  have t: "HealthCheckTimeout bucket_cfg = 5000000000" by (simp add: bucket_cfg_def)
  have l: "int (steady_lag 0) < 5000000000" by (simp add: steady_lag_def)
  have ps: "map at (polls ready_run) = [1000, 600002000, 1200003000, 1800004000]"
    "map took (polls ready_run) = [100000000, 100000000, 100000000, 20000000]"
    by (simp_all add: ready_run_def)
  note w = waitForHealth_polls_until_ready_or_deadline
             [OF ready_run_eq, of bucket_env bucket_cfg True]
  from w have w2: "\<forall>p \<in> set (butlast (polls ready_run)). result p \<noteq> Got 200" by blast
  from w have w3: "\<forall>p \<in> set (polls ready_run).
             url p = ''http://127.0.0.1:8081'' @ ''/health'' \<and> 0 + int (steady_lag 0) \<le> at p
             \<and> at p < 0 + 5000000000 \<and> took p \<le> 2000000000" by blast
  from w ok have w1: "\<exists>p \<in> set (polls ready_run). result p = Got 200" by blast
  from w l have w4: "polls ready_run \<noteq> []" by blast
  from w w4 ok have w5: "ended_at ready_run
      = at (last (polls ready_run)) + int (took (last (polls ready_run)))" by presburger
  from w ok t bucket_cfg_eq
  have w6: "main_tigris bucket_env True slow_backend steady_lag 0 = Serving bucket_cfg"
    by (simp only: simp_thms if_True)
  from w3 have w3': "\<forall>p \<in> set (polls ready_run).
             url p = ''http://127.0.0.1:8081/health'' \<and> 0 + int (steady_lag 0) \<le> at p
             \<and> at p < 0 + 5000000000 \<and> took p \<le> 2000000000" by simp
  from ready_run_eq bucket_cfg_eq t l ok w1 w2 w3' w4 ps w5 w6 show ?thesis
    unfolding list_all_iff by blast
qed

text \<open>
  C10. In the buffering version, when reading the body of a status-200 response fails,
  the hook returns the error to the proxy and starts no goroutine; the proxy then
  answers 502, so the client does not receive the 200 response, and no upload runs.
\<close>

theorem body_read_failure_reaches_client:
  assumes "StatusCode resp = 200" and "ending (reader_of (Body resp)) = Broken e"
  shows "ret (ModifyResponse_buffered resp) = Some (ReadFailure e)
       \<and> spawned (ModifyResponse_buffered resp) = []
       \<and> handle_buffered store cfg resp = \<lparr>to_client = bad_gateway, uploads = []\<rparr>
       \<and> status bad_gateway = 502"
  using assms
  by (simp add: ModifyResponse_buffered_def ReadAll_def handle_buffered_def bad_gateway_def)

text \<open>
  C10 at a response whose body breaks off after two bytes.
\<close>

theorem body_read_failure_reaches_client_witness:
  "StatusCode broken200 = 200
   \<and> ending (reader_of (Body broken200)) = Broken ''unexpected EOF''
   \<and> ret (ModifyResponse_buffered broken200) = Some (ReadFailure ''unexpected EOF'')
   \<and> spawned (ModifyResponse_buffered broken200) = []
   \<and> handle_buffered store_up proxy_cfg broken200 = \<lparr>to_client = bad_gateway, uploads = []\<rparr>
   \<and> status bad_gateway = 502"
proof -
  have a: "StatusCode broken200 = 200" by (simp add: broken200_def)
  have b: "ending (reader_of (Body broken200)) = Broken ''unexpected EOF''"
    by (simp add: broken200_def)
  from body_read_failure_reaches_client [OF a b, of store_up proxy_cfg] a b
  show ?thesis by blast
qed

end
